theory Spec2Isabelle
  imports Complex_Main
begin

section \<open>Script loader (src/web3/loadScript.ts)\<close>

text \<open>
  The loader keeps a page-wide registry \<open>scripts\<close> from URL to status object and talks to
  the DOM. The DOM is modelled by what the loader can observe of it: the script elements of
  the document in document order, the listeners attached to elements, and the elements made
  with \<open>document.createElement\<close>. An element carries its identity and its \<open>src\<close>
  attribute; elements made by the loader are numbered in creation order, so a new element
  is distinct from every other one.
\<close>

type_synonym url = string

type_synonym ErrorEvent = nat

datatype element = Existing nat url | Created nat url

fun el_src :: "element \<Rightarrow> url" where
  "el_src (Existing i u) = u"
| "el_src (Created i u) = u"

text \<open>\<open>Omit<ScriptStatus, 'scriptEl'>\<close> is the snapshot; \<open>ScriptStatus\<close> extends it.\<close>

record snapshot =
  loading :: bool
  error :: "ErrorEvent option"

record ScriptStatus = snapshot +
  scriptEl :: element

text \<open>
  A callback is a function object of the caller. \<open>Callback n\<close> is any caller's function,
  \<open>InitializeCallback\<close> is the arrow function that \<open>isomorphicInitialize\<close> passes.
\<close>

datatype callback = Callback nat | InitializeCallback

record Params =
  src :: "url option"
  checkForExisting :: bool
  loadImmediate :: bool

text \<open>
  The two listeners that \<open>loader\<close> attaches. \<open>handleLoad\<close> closes over the variable
  \<open>status\<close> and over \<open>callback\<close>. The registry is assigned at a URL only where it has no
  entry there (lines 24 and 81, both behind \<open>!status\<close>), so the object \<open>status\<close> refers to
  when the listener runs is the registry's object at \<open>src\<close>; the listener is therefore
  recorded with that URL and writes through the registry.
\<close>

datatype listener = HandleLoad url "callback option" | HandleError "callback option"

datatype dom_event = LoadEvent | ErrorEvent ErrorEvent

record page =
  isBrowser :: bool
  scripts :: "url \<rightharpoonup> ScriptStatus"
  document :: "element list"
  listeners :: "(element \<times> listener) list"
  created :: "element list"
  invoked :: "(callback \<times> snapshot) list"

text \<open>The deferred trigger: the closure \<open>loader\<close> with the values it captured.\<close>

datatype trigger = Loader Params "ErrorEvent option" "callback option"

definition truthy :: "url option \<Rightarrow> bool" where
  "truthy s = (case s of None \<Rightarrow> False | Some u \<Rightarrow> u \<noteq> [])"

definition querySelector :: "url \<Rightarrow> page \<Rightarrow> element option" where
  "querySelector u p = find (\<lambda>e. el_src e = u) (document p)"

definition checkExisting :: "url \<Rightarrow> page \<Rightarrow> ScriptStatus option \<times> page" where
  "checkExisting u p =
     (case querySelector u p of
        Some existing \<Rightarrow>
          (let st = \<lparr>loading = False, error = None, scriptEl = existing\<rparr>
           in (Some st, p\<lparr>scripts := (scripts p)(u \<mapsto> st)\<rparr>))
      | None \<Rightarrow> (None, p))"

definition scriptLoaded :: bool where
  "scriptLoaded = False"

text \<open>\<open>appendChild\<close> moves a node that is already in the document to the end.\<close>

definition appendChild :: "element \<Rightarrow> element list \<Rightarrow> element list" where
  "appendChild el doc = filter (\<lambda>x. x \<noteq> el) doc @ [el]"

definition createElement :: "url \<Rightarrow> page \<Rightarrow> element \<times> page" where
  "createElement u p =
     (let el = Created (length (created p)) u
      in (el, p\<lparr>created := created p @ [el]\<rparr>))"

fun loader :: "trigger \<Rightarrow> page \<Rightarrow> page" where
  "loader (Loader ps err cb) p =
     (case src ps of
        None \<Rightarrow> p
      | Some u \<Rightarrow>
          if \<not> isBrowser p \<or> u = [] \<or> scriptLoaded \<or> err \<noteq> None then p
          else
            (let (status, p1) =
                   (case scripts p u of
                      Some st \<Rightarrow> (Some st, p)
                    | None \<Rightarrow> if checkForExisting ps then checkExisting u p else (None, p));
                 (el, p2) =
                   (case status of
                      Some st \<Rightarrow> (scriptEl st, p1)
                    | None \<Rightarrow>
                        (let (el, q) = createElement u p1
                         in (el, q\<lparr>scripts := (scripts q)
                                  (u \<mapsto> \<lparr>loading = True, error = None, scriptEl = el\<rparr>)\<rparr>)));
                 p3 = p2\<lparr>listeners := listeners p2 @ [(el, HandleLoad u cb), (el, HandleError cb)]\<rparr>
             in p3\<lparr>document := appendChild el (document p3)\<rparr>))"

definition loadScript ::
  "Params \<Rightarrow> callback option \<Rightarrow> page \<Rightarrow> (snapshot \<times> trigger option) \<times> page" where
  "loadScript ps cb p =
     (let status0 = (case src ps of
                       Some u \<Rightarrow> if u \<noteq> [] then scripts p u else None
                     | None \<Rightarrow> None);
          (status, p1) =
            (case src ps of
               Some u \<Rightarrow>
                 if status0 = None \<and> checkForExisting ps \<and> u \<noteq> [] \<and> isBrowser p
                 then checkExisting u p else (status0, p)
             | None \<Rightarrow> (status0, p));
          ld = ((case status of Some st \<Rightarrow> loading st | None \<Rightarrow> False) \<or> truthy (src ps));
          er = (case status of Some st \<Rightarrow> error st | None \<Rightarrow> None);
          t = Loader ps er cb
      in if loadImmediate ps
         then ((\<lparr>loading = ld, error = er\<rparr>, None), loader t p1)
         else ((\<lparr>loading = ld, error = er\<rparr>, Some t), p1))"

text \<open>Events of a script element run the listeners attached to it, in the order attached.\<close>

definition call :: "callback option \<Rightarrow> snapshot \<Rightarrow> page \<Rightarrow> page" where
  "call cb arg p = (case cb of None \<Rightarrow> p | Some c \<Rightarrow> p\<lparr>invoked := invoked p @ [(c, arg)]\<rparr>)"

fun run_listener :: "dom_event \<Rightarrow> listener \<Rightarrow> page \<Rightarrow> page" where
  "run_listener LoadEvent (HandleLoad u cb) p =
     call cb \<lparr>loading = False, error = None\<rparr>
       (case scripts p u of
          Some st \<Rightarrow> p\<lparr>scripts := (scripts p)(u \<mapsto> st\<lparr>loading := False\<rparr>)\<rparr>
        | None \<Rightarrow> p)"
| "run_listener (ErrorEvent e) (HandleError cb) p =
     call cb \<lparr>loading = False, error = Some e\<rparr> p"
| "run_listener _ _ p = p"

definition dispatchEvent :: "element \<Rightarrow> dom_event \<Rightarrow> page \<Rightarrow> page" where
  "dispatchEvent el ev p =
     foldl (\<lambda>q l. run_listener ev l q) p
       (map snd (filter (\<lambda>x. fst x = el) (listeners p)))"

text \<open>
  One page lifetime: calls of \<open>loadScript\<close>, invocations of deferred triggers, events of
  script elements, and script tags that other code puts into the document.
\<close>

datatype action =
    CallLoadScript Params "callback option"
  | Invoke trigger
  | Dispatch element dom_event
  | InsertForeign nat url

fun step :: "page \<Rightarrow> action \<Rightarrow> page" where
  "step p (CallLoadScript ps cb) = snd (loadScript ps cb p)"
| "step p (Invoke t) = loader t p"
| "step p (Dispatch el ev) = dispatchEvent el ev p"
| "step p (InsertForeign i u) = p\<lparr>document := document p @ [Existing i u]\<rparr>"

definition run :: "action list \<Rightarrow> page \<Rightarrow> page" where
  "run acts p = foldl step p acts"

definition init_page :: "bool \<Rightarrow> (nat \<times> url) list \<Rightarrow> page" where
  "init_page b doc =
     \<lparr>isBrowser = b, scripts = Map.empty, document = map (\<lambda>(i, u). Existing i u) doc,
      listeners = [], created = [], invoked = []\<rparr>"

definition created_for :: "url \<Rightarrow> page \<Rightarrow> element list" where
  "created_for u p = filter (\<lambda>e. el_src e = u) (created p)"


section \<open>Connector adapter (src/web3/web3-react.ts)\<close>

subsection \<open>Chain-id parsing\<close>

text \<open>
  A JavaScript number is an IEEE-754 double: a finite value (\<open>Finite 0\<close> is the positive
  zero), the negative zero, an infinity, or NaN.
\<close>

datatype number = Finite real | NegZero | NaN | PosInfinity | NegInfinity

datatype chainId = Number number | String string

text \<open>
  \<open>Number.parseInt\<close> is a built-in of the language, not code of the repository. It is
  written here after its definition in ECMA-262 (\<open>parseInt (string, radix)\<close>): leading
  white space is dropped, then an optional sign is read; a radix of 0 means 10; with radix 0
  or 16 a prefix \<open>0x\<close> or \<open>0X\<close> is dropped and the radix is 16; the longest prefix of digits
  of the radix is the numeral, and the result is NaN where that prefix is empty or the radix
  is not in 2..36. Otherwise the result is the double nearest to the signed value of the
  numeral (\<open>toNumber\<close>): ties go to the even significand, a magnitude that rounds to
  \<open>2^1024\<close> or more is an infinity, and a zero takes the sign read. Characters are the 8-bit
  characters of HOL, so of the white space of the language only the code points below 256
  appear. For radix 10 the standard lets an implementation replace the digits after the 20th
  significant one by zeros; the model keeps every digit, so beyond 20 digits it describes
  the implementations that do.
\<close>

definition isWhiteSpace :: "char \<Rightarrow> bool" where
  "isWhiteSpace c = (of_char c \<in> {9, 10, 11, 12, 13, 32, 160 :: nat})"

definition digitValue :: "char \<Rightarrow> nat option" where
  "digitValue c =
     (let n = of_char c :: nat
      in if 48 \<le> n \<and> n \<le> 57 then Some (n - 48)
         else if 97 \<le> n \<and> n \<le> 122 then Some (n - 87)
         else if 65 \<le> n \<and> n \<le> 90 then Some (n - 55)
         else None)"

definition isRadixDigit :: "nat \<Rightarrow> char \<Rightarrow> bool" where
  "isRadixDigit R c = (case digitValue c of Some d \<Rightarrow> d < R | None \<Rightarrow> False)"

definition mathInt :: "nat \<Rightarrow> string \<Rightarrow> nat" where
  "mathInt R Z = foldl (\<lambda>a c. a * R + (case digitValue c of Some d \<Rightarrow> d | None \<Rightarrow> 0)) 0 Z"

text \<open>The number of binary digits of a natural number.\<close>

fun bits :: "nat \<Rightarrow> nat" where
  "bits n = (if n = 0 then 0 else Suc (bits (n div 2)))"

declare bits.simps [simp del]

text \<open>
  The magnitude of the double nearest to a natural number: below \<open>2^53\<close> the number
  itself, otherwise its leading 53 binary digits, rounded to nearest with ties to even,
  times the power of two that was cut off.
\<close>

definition roundToDouble :: "nat \<Rightarrow> nat" where
  "roundToDouble n =
     (if n < 2 ^ 53 then n
      else
        (let e = bits n - 53;
             q = n div 2 ^ e;
             r = n mod 2 ^ e;
             half = 2 ^ (e - 1)
         in (if half < r \<or> (r = half \<and> odd q) then q + 1 else q) * 2 ^ e))"

definition toNumber :: "int \<Rightarrow> nat \<Rightarrow> number" where
  "toNumber sign m =
     (if m = 0 then (if sign < 0 then NegZero else Finite 0)
      else if 2 ^ 1024 \<le> roundToDouble m
           then (if sign < 0 then NegInfinity else PosInfinity)
      else Finite (of_int (sign * int (roundToDouble m))))"

definition parseInt :: "string \<Rightarrow> nat \<Rightarrow> number" where
  "parseInt string radix =
     (let S = dropWhile isWhiteSpace string;
          sign = (if S \<noteq> [] \<and> hd S = CHR ''-'' then - 1 else 1 :: int);
          S1 = (if S \<noteq> [] \<and> (hd S = CHR ''+'' \<or> hd S = CHR ''-'') then tl S else S);
          stripPrefix = (radix = 0 \<or> radix = 16);
          R0 = (if radix = 0 then 10 else radix);
          hasPrefix = (stripPrefix \<and> (take 2 S1 = ''0x'' \<or> take 2 S1 = ''0X''));
          S2 = (if hasPrefix then drop 2 S1 else S1);
          R = (if hasPrefix then 16 else R0);
          Z = takeWhile (isRadixDigit R) S2
      in if radix \<noteq> 0 \<and> (radix < 2 \<or> 36 < radix) then NaN
         else if Z = [] then NaN
         else toNumber sign (mathInt R Z))"

definition startsWith :: "string \<Rightarrow> string \<Rightarrow> bool" where
  "startsWith s pre = (take (length pre) s = pre)"

definition parseChainId :: "chainId \<Rightarrow> number" where
  "parseChainId c =
     (case c of
        Number n \<Rightarrow> n
      | String s \<Rightarrow> parseInt s (if startsWith s ''0x'' then 16 else 10))"

text \<open>
  What the chain-id parser is said to compute, in the spec's words: the value of a numeral
  in base 16 or base 10, by the positional rule.
\<close>

fun numeral_value :: "nat \<Rightarrow> nat list \<Rightarrow> nat" where
  "numeral_value b [] = 0"
| "numeral_value b (d # ds) = d * b ^ length ds + numeral_value b ds"

definition hex_digit :: "char \<Rightarrow> nat option" where
  "hex_digit c = map_option fst (find (\<lambda>(d, cs). c \<in> set cs)
     [(0, ''0''), (1, ''1''), (2, ''2''), (3, ''3''), (4, ''4''), (5, ''5''), (6, ''6''),
      (7, ''7''), (8, ''8''), (9, ''9''), (10, ''aA''), (11, ''bB''), (12, ''cC''),
      (13, ''dD''), (14, ''eE''), (15 :: nat, ''fF'')])"

definition dec_digit :: "char \<Rightarrow> nat option" where
  "dec_digit c = (case hex_digit c of Some d \<Rightarrow> if d < 10 then Some d else None | None \<Rightarrow> None)"

subsection \<open>Promises, collaborators and the adapter's state\<close>

text \<open>
  An operation of the adapter is followed until nothing more can happen. A promise is then
  fulfilled, rejected, or still pending; \<open>Pending\<close> is the promise that never settles.
  \<open>Thrown n\<close> is a value thrown or rejected by a collaborator (the SDK, the provider).
\<close>

datatype js_error = Error string | TypeError | ScriptError ErrorEvent | Thrown nat

datatype 'a promise = Fulfilled 'a | Rejected js_error | Pending

record WatchAssetOptions =
  address :: string
  symbol :: "string option"
  decimals :: "nat option"
  image :: "string option"

datatype request = EthAccounts | EthChainId | WalletWatchAsset string WatchAssetOptions

text \<open>
  Every call the adapter makes on a collaborator, in the order made: the action-reporting
  interface (\<open>startActivation\<close>, the cancel function it returned, \<open>update\<close>,
  \<open>resetState\<close>), \<open>onError\<close>, the SDK and the provider. \<open>Request p r\<close> is the call
  \<open>provider.request\<close> being issued on provider \<open>p\<close>.
\<close>

datatype event =
    StartActivation
  | CancelActivation
  | Update "number option" "string list option"
  | ResetState
  | OnError js_error
  | Web3
  | CreateEthereumOnboarding nat
  | Open
  | GetCurrentEthereumProvider nat nat
  | IsProviderActive nat nat
  | DisconnectEthereumProvider nat nat
  | Request nat request

text \<open>The four arrow functions that \<open>setProvider\<close> subscribes, and what a provider emits.\<close>

datatype handler = OnConnect | OnDisconnect | OnChainChanged | OnAccountsChanged

datatype provider_event =
    Connect string
  | Disconnect js_error
  | ChainChanged string
  | AccountsChanged "string list"

fun event_name :: "provider_event \<Rightarrow> string" where
  "event_name (Connect c) = ''connect''"
| "event_name (Disconnect e) = ''disconnect''"
| "event_name (ChainChanged c) = ''chainChanged''"
| "event_name (AccountsChanged a) = ''accountsChanged''"

text \<open>
  The adapter object with what it reaches: its fields, the page of the script loader, the
  subscriptions made with \<open>provider.on\<close>, and the calls made so far. Providers and SDK
  namespace objects are identified by numbers.
\<close>

record world =
  options_chain :: nat
  onError :: bool
  provider :: "nat option"
  plaidWeb3 :: "nat option"
  eagerConnection :: "unit promise option"
  browser :: page
  wired :: "(nat \<times> string \<times> handler) list"
  trace :: "event list"

text \<open>
  What the collaborators answer during one operation: the event of the script element, the
  promise of \<open>window.Plaid.web3()\<close> (rejected with a TypeError where the global is
  missing), the onboarding dialogue (\<open>onSuccess\<close> fulfils, \<open>onExit\<close> rejects), the SDK's
  other methods and the provider's answers. \<open>chainId_first\<close> says that the chain-id request
  settles before the accounts request.
\<close>

record env =
  script_event :: "dom_event option"
  web3_result :: "nat promise"
  onboarding_result :: "nat promise"
  current_provider :: "nat option promise"
  provider_active :: "nat \<Rightarrow> bool promise"
  eth_accounts :: "nat \<Rightarrow> string list promise"
  eth_chainId :: "nat \<Rightarrow> chainId promise"
  chainId_first :: bool
  watchAsset_result :: "nat \<Rightarrow> bool promise"
  disconnect_result :: "unit promise"
  disconnect_emits :: "js_error option"

definition logCall :: "event \<Rightarrow> world \<Rightarrow> world" where
  "logCall e w = w\<lparr>trace := trace w @ [e]\<rparr>"

definition thenP ::
  "'a promise \<times> world \<Rightarrow> ('a \<Rightarrow> world \<Rightarrow> 'b promise \<times> world) \<Rightarrow> 'b promise \<times> world" where
  "thenP r f =
     (case r of
        (Fulfilled v, w) \<Rightarrow> f v w
      | (Rejected e, w) \<Rightarrow> (Rejected e, w)
      | (Pending, w) \<Rightarrow> (Pending, w))"

definition catchP ::
  "'a promise \<times> world \<Rightarrow> (js_error \<Rightarrow> world \<Rightarrow> 'a promise \<times> world) \<Rightarrow> 'a promise \<times> world" where
  "catchP r h =
     (case r of
        (Fulfilled v, w) \<Rightarrow> (Fulfilled v, w)
      | (Rejected e, w) \<Rightarrow> h e w
      | (Pending, w) \<Rightarrow> (Pending, w))"

text \<open>
  \<open>Promise.all\<close> of two promises: fulfilled when both are, rejected with the reason of the
  one that rejects first, pending otherwise.
\<close>

definition promise_all :: "bool \<Rightarrow> 'a promise \<Rightarrow> 'b promise \<Rightarrow> ('a \<times> 'b) promise" where
  "promise_all second_first a b =
     (case a of
        Fulfilled x \<Rightarrow>
          (case b of Fulfilled y \<Rightarrow> Fulfilled (x, y) | Rejected e' \<Rightarrow> Rejected e' | Pending \<Rightarrow> Pending)
      | Rejected e \<Rightarrow>
          (case b of Rejected e' \<Rightarrow> Rejected (if second_first then e' else e) | _ \<Rightarrow> Rejected e)
      | Pending \<Rightarrow>
          (case b of Rejected e' \<Rightarrow> Rejected e' | _ \<Rightarrow> Pending))"

subsection \<open>The adapter's methods\<close>

definition PLAID_LINK_STABLE_URL :: url where
  "PLAID_LINK_STABLE_URL = ''https://cdn.plaid.com/link/v2/stable/link-initialize.js''"

definition new_adapter :: "nat \<Rightarrow> bool \<Rightarrow> page \<Rightarrow> world" where
  "new_adapter chain has_onError pg =
     \<lparr>options_chain = chain, onError = has_onError, provider = None, plaidWeb3 = None,
      eagerConnection = None, browser = pg, wired = [], trace = []\<rparr>"

text \<open>
  The promise made in \<open>isomorphicInitialize\<close> is settled by the callback given to
  \<open>loadScript\<close>: the first call with \<open>loading\<close> false resolves it, or rejects it with the
  error. The browser then fetches the script, and the element reports \<open>load\<close> or \<open>error\<close>.
\<close>

definition settled :: "(callback \<times> snapshot) list \<Rightarrow> unit promise" where
  "settled calls =
     (case filter (\<lambda>(c, a). c = InitializeCallback \<and> \<not> loading a) calls of
        [] \<Rightarrow> Pending
      | (c, a) # rest \<Rightarrow>
          (case error a of Some e \<Rightarrow> Rejected (ScriptError e) | None \<Rightarrow> Fulfilled ()))"

definition script_reports :: "env \<Rightarrow> page \<Rightarrow> page" where
  "script_reports env pg =
     (case script_event env of
        None \<Rightarrow> pg
      | Some ev \<Rightarrow>
          (case scripts pg PLAID_LINK_STABLE_URL of
             None \<Rightarrow> pg
           | Some st \<Rightarrow> dispatchEvent (scriptEl st) ev pg))"

definition isomorphicInitialize :: "env \<Rightarrow> world \<Rightarrow> unit promise \<times> world" where
  "isomorphicInitialize env w =
     (case eagerConnection w of
        Some running \<Rightarrow> (Fulfilled (), w)
      | None \<Rightarrow>
          (let pg = snd (loadScript
                      \<lparr>src = Some PLAID_LINK_STABLE_URL, checkForExisting = True,
                       loadImmediate = True\<rparr>
                      (Some InitializeCallback) (browser w));
               pg' = script_reports env pg;
               loaded = settled (drop (length (invoked pg)) (invoked pg'));
               r = thenP
                     (thenP (loaded, w\<lparr>browser := pg'\<rparr>)
                        (\<lambda>u w. (web3_result env, logCall Web3 w)))
                     (\<lambda>sdk w. (Fulfilled (), w\<lparr>plaidWeb3 := Some sdk\<rparr>))
           in (fst r, (snd r)\<lparr>eagerConnection := Some (fst r)\<rparr>)))"

definition setProvider :: "nat \<Rightarrow> world \<Rightarrow> world" where
  "setProvider p w =
     w\<lparr>provider := Some p,
       wired := wired w @
         [(p, ''connect'', OnConnect), (p, ''disconnect'', OnDisconnect),
          (p, ''chainChanged'', OnChainChanged), (p, ''accountsChanged'', OnAccountsChanged)]\<rparr>"

fun run_handler :: "handler \<Rightarrow> provider_event \<Rightarrow> world \<Rightarrow> world" where
  "run_handler OnConnect (Connect c) w = logCall (Update (Some (parseChainId (String c))) None) w"
| "run_handler OnDisconnect (Disconnect e) w =
     (let w1 = logCall ResetState w in if onError w1 then logCall (OnError e) w1 else w1)"
| "run_handler OnChainChanged (ChainChanged c) w =
     logCall (Update (Some (parseChainId (String c))) None) w"
| "run_handler OnAccountsChanged (AccountsChanged accounts) w =
     (if length accounts = 0 then logCall ResetState w else logCall (Update None (Some accounts)) w)"
| "run_handler _ _ w = w"

text \<open>The provider emits an event: the handlers subscribed to its name run in order.\<close>

definition emit :: "nat \<Rightarrow> provider_event \<Rightarrow> world \<Rightarrow> world" where
  "emit p ev w =
     foldl (\<lambda>q h. run_handler h ev q) w
       (map (\<lambda>x. snd (snd x))
          (filter (\<lambda>x. fst x = p \<and> fst (snd x) = event_name ev) (wired w)))"

text \<open>
  Lines 59 to 66 of \<open>activate\<close> and lines 92 to 99 of \<open>connectEagerly\<close> are the same
  text. The array literal calls \<open>provider.request\<close> twice, for \<open>eth_accounts\<close> and then for
  \<open>eth_chainId\<close>, before \<open>Promise.all\<close> is entered.
\<close>

definition requestAccountsAndChain :: "env \<Rightarrow> nat \<Rightarrow> world \<Rightarrow> unit promise \<times> world" where
  "requestAccountsAndChain env p w =
     (let w1 = logCall (Request p EthAccounts) w;
          w2 = logCall (Request p EthChainId) w1
      in thenP (promise_all (chainId_first env) (eth_accounts env p) (eth_chainId env p), w2)
           (\<lambda>(accounts, chainId) w.
              if length accounts = 0 then (Rejected (Error ''No accounts returned''), w)
              else (Fulfilled (),
                    logCall (Update (Some (parseChainId chainId)) (Some accounts)) w)))"

definition activate :: "env \<Rightarrow> world \<Rightarrow> unit promise \<times> world" where
  "activate env w0 =
     (let w = logCall StartActivation w0
      in catchP
           (thenP
              (thenP (isomorphicInitialize env w)
                 (\<lambda>u w. case plaidWeb3 w of
                           None \<Rightarrow> (Rejected TypeError, w)
                         | Some sdk \<Rightarrow>
                             (onboarding_result env,
                              logCall Open (logCall (CreateEthereumOnboarding sdk) w))))
              (\<lambda>p w. requestAccountsAndChain env p (setProvider p w)))
           (\<lambda>error w. (Rejected error, logCall CancelActivation w)))"

definition connectEagerly :: "env \<Rightarrow> world \<Rightarrow> unit promise \<times> world" where
  "connectEagerly env w0 =
     (let w = logCall StartActivation w0
      in catchP
           (thenP
              (thenP
                 (thenP (isomorphicInitialize env w)
                    (\<lambda>u w. case plaidWeb3 w of
                              None \<Rightarrow> (Rejected TypeError, w)
                            | Some sdk \<Rightarrow>
                                (current_provider env,
                                 logCall (GetCurrentEthereumProvider sdk (options_chain w)) w)))
                 (\<lambda>found w.
                    case found of
                      None \<Rightarrow> (Rejected (Error ''No existing connection''), w)
                    | Some p \<Rightarrow>
                        (case plaidWeb3 w of
                           None \<Rightarrow> (Rejected TypeError, w)
                         | Some sdk \<Rightarrow>
                             thenP
                               (thenP (provider_active env p, logCall (IsProviderActive sdk p) w)
                                  (\<lambda>connected w.
                                     if \<not> connected
                                     then (Rejected (Error ''No existing connection''), w)
                                     else (Fulfilled (), w)))
                               (\<lambda>u w. (Fulfilled (), setProvider p w)))))
              (\<lambda>u w. case provider w of
                        None \<Rightarrow> (Rejected TypeError, w)
                      | Some p \<Rightarrow> requestAccountsAndChain env p w))
           (\<lambda>error w. (Rejected error, logCall CancelActivation w)))"

text \<open>
  \<open>deactivate\<close> hands the provider to the SDK. The provider may emit \<open>disconnect\<close> in
  answer, which runs the handlers subscribed by \<open>setProvider\<close>.
\<close>

definition deactivate :: "env \<Rightarrow> world \<Rightarrow> unit promise \<times> world" where
  "deactivate env w =
     (case provider w of
        None \<Rightarrow> (Fulfilled (), w)
      | Some p \<Rightarrow>
          (case plaidWeb3 w of
             None \<Rightarrow> (Fulfilled (), w)
           | Some sdk \<Rightarrow>
               (let w1 = logCall (DisconnectEthereumProvider sdk p) w
                in (disconnect_result env,
                    case disconnect_emits env of
                      None \<Rightarrow> w1
                    | Some e \<Rightarrow> emit p (Disconnect e) w1))))"

text \<open>
  \<open>watchAsset\<close> is not an \<open>async\<close> function: its first statement throws to the caller,
  and only the rest returns a promise. The two ways of failing are kept apart.
\<close>

datatype 'a completion = Throws js_error | Returns 'a

definition watchAsset ::
  "env \<Rightarrow> WatchAssetOptions \<Rightarrow> world \<Rightarrow> bool promise completion \<times> world" where
  "watchAsset env opts w =
     (case provider w of
        None \<Rightarrow> (Throws (Error ''No provider''), w)
      | Some p \<Rightarrow>
          (let r = thenP (watchAsset_result env p, logCall (Request p (WalletWatchAsset ''ERC20'' opts)) w)
                     (\<lambda>success w.
                        if \<not> success then (Rejected (Error ''Rejected''), w)
                        else (Fulfilled True, w))
           in (Returns (fst r), snd r)))"


section \<open>Auxiliary notions for the proofs\<close>

text \<open>
  Limits of the model. The registry is a map on strings, so a URL that names a property
  every JavaScript object inherits (\<open>constructor\<close>, \<open>toString\<close>) is looked up like any
  other. A URL is compared with the \<open>src\<close> attribute as a string, as the selector of
  \<open>checkExisting\<close> does. Collaborators answer through promises only.
\<close>

text \<open>
  The registry covers what was created: no URL has two created elements, and a URL with a
  created element has a registry entry.
\<close>

definition registered :: "page \<Rightarrow> bool" where
  "registered p =
     (\<forall>u. length (created_for u p) \<le> 1 \<and> (created_for u p \<noteq> [] \<longrightarrow> scripts p u \<noteq> None))"

text \<open>An operation only adds calls to the ones already made.\<close>

definition extends :: "world \<Rightarrow> world \<Rightarrow> bool" where
  "extends w w' = (\<exists>xs. trace w' = trace w @ xs)"

text \<open>
  An operation started in \<open>w\<close> has ended in \<open>r\<close> rejected with \<open>e\<close>, and the calls it
  made begin with \<open>startActivation\<close> and end with the cancel function.
\<close>

definition rejected_and_cancelled :: "js_error \<Rightarrow> world \<Rightarrow> unit promise \<times> world \<Rightarrow> bool" where
  "rejected_and_cancelled e w r =
     (fst r = Rejected e \<and>
      take (Suc (length (trace w))) (trace (snd r)) = trace w @ [StartActivation] \<and>
      Suc (length (trace w)) < length (trace (snd r)) \<and>
      last (trace (snd r)) = CancelActivation)"

text \<open>The adapter holds a provider on which its \<open>accountsChanged\<close> handler is subscribed.\<close>

definition subscribed :: "world \<Rightarrow> bool" where
  "subscribed w =
     (\<exists>p. provider w = Some p \<and> (p, ''accountsChanged'', OnAccountsChanged) \<in> set (wired w))"

text \<open>The value a fulfilled \<open>wallet_watchAsset\<close> request of a set provider leads to.\<close>

definition watched :: "bool promise \<Rightarrow> bool promise" where
  "watched r =
     (case r of
        Fulfilled success \<Rightarrow> if success then Fulfilled True else Rejected (Error ''Rejected'')
      | Rejected e \<Rightarrow> Rejected e
      | Pending \<Rightarrow> Pending)"

subsection \<open>Sample pages, adapters and collaborators\<close>

definition sample_url :: url where
  "sample_url = ''https://cdn.example.org/sdk.js''"

definition page_with_tag :: page where
  "page_with_tag = init_page True [(0, sample_url)]"

definition adapter0 :: world where
  "adapter0 = new_adapter 1 True (init_page True [])"

definition env_ok :: env where
  "env_ok =
     \<lparr>script_event = Some LoadEvent, web3_result = Fulfilled 7, onboarding_result = Fulfilled 1,
      current_provider = Fulfilled (Some 1), provider_active = (\<lambda>p. Fulfilled True),
      eth_accounts = (\<lambda>p. Fulfilled [''0xabc'']),
      eth_chainId = (\<lambda>p. Fulfilled (String ''0x1'')),
      chainId_first = False, watchAsset_result = (\<lambda>p. Fulfilled True),
      disconnect_result = Fulfilled (), disconnect_emits = Some (Thrown 9)\<rparr>"

definition env_accounts_hang :: env where
  "env_accounts_hang = env_ok\<lparr>eth_accounts := (\<lambda>p. Pending)\<rparr>"

definition env_script_error :: env where
  "env_script_error = env_ok\<lparr>script_event := Some (ErrorEvent 4)\<rparr>"

definition env_no_accounts :: env where
  "env_no_accounts = env_ok\<lparr>eth_accounts := (\<lambda>p. Fulfilled [])\<rparr>"

definition env_no_accounts_chain_fails :: env where
  "env_no_accounts_chain_fails = env_no_accounts\<lparr>eth_chainId := (\<lambda>p. Rejected (Thrown 3))\<rparr>"

text \<open>The adapter after a connect whose initialization was rejected.\<close>

definition adapter_failed :: world where
  "adapter_failed = snd (activate env_script_error adapter0)"

definition env_script_silent :: env where
  "env_script_silent = env_ok\<lparr>script_event := None\<rparr>"

definition env_exit :: env where
  "env_exit = env_ok\<lparr>onboarding_result := Rejected (Thrown 5)\<rparr>"

definition env_lookup_fails :: env where
  "env_lookup_fails = env_ok\<lparr>current_provider := Rejected (Thrown 6)\<rparr>"

definition env_no_session :: env where
  "env_no_session = env_ok\<lparr>current_provider := Fulfilled None\<rparr>"

definition env_active_fails :: env where
  "env_active_fails = env_ok\<lparr>provider_active := (\<lambda>p. Rejected (Thrown 8))\<rparr>"

definition env_inactive :: env where
  "env_inactive = env_ok\<lparr>provider_active := (\<lambda>p. Fulfilled False)\<rparr>"

definition token :: WatchAssetOptions where
  "token = \<lparr>address = ''0xdead'', symbol = Some ''TKN'', decimals = Some 18, image = None\<rparr>"


section \<open>The script loader: lemmas\<close>

lemmas loader_defs = loadScript_def checkExisting_def querySelector_def createElement_def
  appendChild_def truthy_def scriptLoaded_def Let_def

lemmas page_defs = init_page_def run_def dispatchEvent_def call_def created_for_def

lemmas sample_defs = adapter0_def env_ok_def env_accounts_hang_def env_script_error_def
  env_no_accounts_def env_no_accounts_chain_fails_def token_def sample_url_def page_with_tag_def
  env_script_silent_def env_exit_def env_lookup_fails_def env_no_session_def
  env_active_fails_def env_inactive_def adapter_failed_def

lemma checkExisting_created: "created (snd (checkExisting u p)) = created p"
  by (simp add: checkExisting_def Let_def split: option.splits)

lemma checkExisting_registered: "registered p \<Longrightarrow> registered (snd (checkExisting u p))"
  unfolding registered_def created_for_def
  by (simp add: checkExisting_created checkExisting_def Let_def split: option.splits)

lemma loader_registered: "registered p \<Longrightarrow> registered (loader t p)"
proof (cases t)
  case (Loader ps err cb)
  assume r: "registered p"
  show ?thesis
  proof (cases "src ps")
    case None
    with Loader r show ?thesis by simp
  next
    case (Some u)
    show ?thesis
    proof (cases "\<not> isBrowser p \<or> u = [] \<or> scriptLoaded \<or> err \<noteq> None")
      case True
      with Loader Some r show ?thesis by simp
    next
      case False
      show ?thesis
        using r False Loader Some
        unfolding registered_def created_for_def
        by (auto simp: Let_def createElement_def checkExisting_def
            split: option.splits prod.splits if_splits)
    qed
  qed
qed

lemma loadScript_registered: "registered p \<Longrightarrow> registered (snd (loadScript ps cb p))"
  by (simp add: loadScript_def Let_def case_prod_beta loader_registered checkExisting_registered
      del: loader.simps split: option.splits)

lemma call_created: "created (call cb a p) = created p"
  by (simp add: call_def split: option.splits)

lemma call_scripts: "scripts (call cb a p) = scripts p"
  by (simp add: call_def split: option.splits)

lemma run_listener_registered: "registered p \<Longrightarrow> registered (run_listener ev l p)"
  unfolding registered_def created_for_def
  by (cases "(ev, l, p)" rule: run_listener.cases)
     (auto simp: call_created call_scripts split: option.splits)

lemma foldl_listeners_registered:
  "registered p \<Longrightarrow> registered (foldl (\<lambda>q l. run_listener ev l q) p ls)"
  by (induction ls arbitrary: p) (simp_all add: run_listener_registered)

lemma dispatchEvent_registered: "registered p \<Longrightarrow> registered (dispatchEvent el ev p)"
  by (simp add: dispatchEvent_def foldl_listeners_registered)

lemma step_registered: "registered p \<Longrightarrow> registered (step p a)"
proof (cases a)
  case (InsertForeign i u)
  assume "registered p"
  with InsertForeign show ?thesis by (simp add: registered_def created_for_def)
qed (simp_all add: loadScript_registered loader_registered dispatchEvent_registered
       del: loader.simps)

lemma run_registered: "registered p \<Longrightarrow> registered (run acts p)"
  unfolding run_def by (induction acts arbitrary: p) (simp_all add: step_registered)

lemma init_registered: "registered (init_page b doc)"
  by (simp add: registered_def created_for_def init_page_def)

text \<open>
  The \<open>loading\<close> flag of the returned snapshot does not depend on the registry: it is
  the truth value of \<open>src\<close>.
\<close>

lemma loadScript_loading: "loading (fst (fst (loadScript ps cb p))) = truthy (src ps)"
  by (simp add: loadScript_def Let_def case_prod_beta truthy_def checkExisting_def
      split: option.splits)

text \<open>
  Claim C3, evaluated on the code. The document holds a script tag for the URL, nothing is
  registered, and the loader is called with \<open>checkForExisting\<close> set. The tag is adopted
  (the registry records it as loaded) and no element is created, but the snapshot handed
  back reports \<open>loading\<close> true, not false.
\<close>

theorem loadScript_adopted_snapshot:
  "fst (fst (loadScript \<lparr>src = Some sample_url, checkForExisting = True, loadImmediate = False\<rparr>
       None page_with_tag))
     = \<lparr>loading = True, error = None\<rparr>
   \<and> created (snd (loadScript \<lparr>src = Some sample_url, checkForExisting = True, loadImmediate = False\<rparr>
       None page_with_tag)) = []
   \<and> scripts (snd (loadScript \<lparr>src = Some sample_url, checkForExisting = True, loadImmediate = False\<rparr>
       None page_with_tag)) sample_url
       = Some \<lparr>loading = False, error = None, scriptEl = Existing 0 sample_url\<rparr>"
  by (simp add: loader_defs page_defs sample_defs)

text \<open>
  Claim C4. Whatever calls of \<open>loadScript\<close>, invocations of deferred triggers, element
  events and foreign script tags a page sees from its start, the loader creates at most one
  script element for a URL.
\<close>

theorem one_element_per_url:
  "length (created_for u (run acts (init_page b doc))) \<le> 1"
  using run_registered [OF init_registered, of acts b doc] by (simp add: registered_def)

text \<open>Two immediate loads of one URL without \<open>checkForExisting\<close>: one element.\<close>

theorem one_element_per_url_witness:
  "length (created_for sample_url
     (run [CallLoadScript \<lparr>src = Some sample_url, checkForExisting = False, loadImmediate = True\<rparr> None,
           CallLoadScript \<lparr>src = Some sample_url, checkForExisting = False, loadImmediate = True\<rparr> None]
        (init_page True []))) \<le> 1
   \<and> created_for sample_url
     (run [CallLoadScript \<lparr>src = Some sample_url, checkForExisting = False, loadImmediate = True\<rparr> None,
           CallLoadScript \<lparr>src = Some sample_url, checkForExisting = False, loadImmediate = True\<rparr> None]
        (init_page True [])) = [Created 0 sample_url]"
  using one_element_per_url [of sample_url
      "[CallLoadScript \<lparr>src = Some sample_url, checkForExisting = False, loadImmediate = True\<rparr> None,
        CallLoadScript \<lparr>src = Some sample_url, checkForExisting = False, loadImmediate = True\<rparr> None]"
      True "[]"]
  by (simp add: loader_defs page_defs sample_defs)


section \<open>Chain-id parsing: lemmas\<close>

lemmas parse_defs = parseChainId_def startsWith_def parseInt_def isWhiteSpace_def
  isRadixDigit_def digitValue_def mathInt_def toNumber_def roundToDouble_def

lemma hex_digit_cases:
  "hex_digit c = Some d \<Longrightarrow>
    (c, d) \<in> set [(CHR ''0'', 0), (CHR ''1'', 1), (CHR ''2'', 2), (CHR ''3'', 3), (CHR ''4'', 4),
       (CHR ''5'', 5), (CHR ''6'', 6), (CHR ''7'', 7), (CHR ''8'', 8), (CHR ''9'', 9),
       (CHR ''a'', 10), (CHR ''A'', 10), (CHR ''b'', 11), (CHR ''B'', 11), (CHR ''c'', 12),
       (CHR ''C'', 12), (CHR ''d'', 13), (CHR ''D'', 13), (CHR ''e'', 14), (CHR ''E'', 14),
       (CHR ''f'', 15), (CHR ''F'', 15)]"
  unfolding hex_digit_def
  by (simp split: if_splits)

lemma hex_digit_digitValue:
  "hex_digit c = Some d \<Longrightarrow> digitValue c = Some d \<and> d < 16"
  by (auto dest!: hex_digit_cases simp: digitValue_def)

lemma dec_digit_hex: "dec_digit c = Some d \<Longrightarrow> hex_digit c = Some d \<and> d < 10"
  by (auto simp: dec_digit_def split: option.splits if_splits)

lemma dec_digit_char:
  "dec_digit c = Some d \<Longrightarrow>
     \<not> isWhiteSpace c \<and> c \<noteq> CHR ''-'' \<and> c \<noteq> CHR ''+'' \<and> c \<noteq> CHR ''x''"
  by (auto dest!: dec_digit_hex hex_digit_cases simp: isWhiteSpace_def)

lemma foldl_positional:
  "foldl (\<lambda>a c. a * R + f c) a Z = a * R ^ length Z + numeral_value R (map f Z)"
  by (induction Z arbitrary: a) (simp_all add: algebra_simps)

lemma mathInt_numeral_value:
  "mathInt R Z = numeral_value R (map (\<lambda>c. case digitValue c of Some d \<Rightarrow> d | None \<Rightarrow> 0) Z)"
  by (simp add: mathInt_def foldl_positional)

lemma hex_digit_radix:
  assumes "hex_digit c \<noteq> None"
  shows "isRadixDigit 16 c"
    and "(case digitValue c of Some d \<Rightarrow> d | None \<Rightarrow> 0) = (the \<circ> hex_digit) c"
proof -
  from assms obtain d where d: "hex_digit c = Some d" by blast
  from hex_digit_digitValue [OF d] show "isRadixDigit 16 c"
    by (simp add: isRadixDigit_def)
  from hex_digit_digitValue [OF d] d
  show "(case digitValue c of Some d \<Rightarrow> d | None \<Rightarrow> 0) = (the \<circ> hex_digit) c"
    by simp
qed

lemma dec_digit_radix:
  assumes "dec_digit c \<noteq> None"
  shows "isRadixDigit 10 c"
    and "(case digitValue c of Some d \<Rightarrow> d | None \<Rightarrow> 0) = (the \<circ> dec_digit) c"
proof -
  from assms obtain d where d: "dec_digit c = Some d" by blast
  from dec_digit_hex [OF d] have h: "hex_digit c = Some d" and less: "d < 10" by simp_all
  from hex_digit_digitValue [OF h] less show "isRadixDigit 10 c"
    by (simp add: isRadixDigit_def)
  from hex_digit_digitValue [OF h] d
  show "(case digitValue c of Some d \<Rightarrow> d | None \<Rightarrow> 0) = (the \<circ> dec_digit) c"
    by simp
qed

lemma parseInt_hex:
  assumes ne: "hs \<noteq> []" and digits: "\<forall>c\<in>set hs. hex_digit c \<noteq> None"
  shows "parseInt (''0x'' @ hs) 16 = toNumber 1 (numeral_value 16 (map (the \<circ> hex_digit) hs))"
proof -
  have "\<forall>c\<in>set hs. isRadixDigit 16 c"
    using digits by (blast intro: hex_digit_radix(1))
  then have Z: "takeWhile (isRadixDigit 16) hs = hs" by (simp add: takeWhile_eq_all_conv)
  have m: "map (\<lambda>c. case digitValue c of Some d \<Rightarrow> d | None \<Rightarrow> 0) hs = map (the \<circ> hex_digit) hs"
  proof (rule map_cong [OF refl])
    fix c assume "c \<in> set hs"
    with digits have "hex_digit c \<noteq> None" by blast
    then show "(case digitValue c of Some d \<Rightarrow> d | None \<Rightarrow> 0) = (the \<circ> hex_digit) c"
      by (rule hex_digit_radix(2))
  qed
  show ?thesis
    by (simp add: parseInt_def Let_def isWhiteSpace_def Z ne mathInt_numeral_value m)
qed

lemma parseInt_dec:
  assumes ne: "ds \<noteq> []" and digits: "\<forall>c\<in>set ds. dec_digit c \<noteq> None"
  shows "parseInt ds 10 = toNumber 1 (numeral_value 10 (map (the \<circ> dec_digit) ds))"
proof -
  obtain c cs where ds: "ds = c # cs" using ne by (cases ds) auto
  with digits obtain d where d: "dec_digit c = Some d" by auto
  have S: "dropWhile isWhiteSpace ds = ds" using ds dec_digit_char [OF d] by simp
  have hd: "hd ds \<noteq> CHR ''-''" "hd ds \<noteq> CHR ''+''" using ds dec_digit_char [OF d] by simp_all
  have "\<forall>c\<in>set ds. isRadixDigit 10 c"
    using digits by (blast intro: dec_digit_radix(1))
  then have Z: "takeWhile (isRadixDigit 10) ds = ds" by (simp add: takeWhile_eq_all_conv)
  have m: "map (\<lambda>c. case digitValue c of Some d \<Rightarrow> d | None \<Rightarrow> 0) ds = map (the \<circ> dec_digit) ds"
  proof (rule map_cong [OF refl])
    fix c assume "c \<in> set ds"
    with digits have "dec_digit c \<noteq> None" by blast
    then show "(case digitValue c of Some d \<Rightarrow> d | None \<Rightarrow> 0) = (the \<circ> dec_digit) c"
      by (rule dec_digit_radix(2))
  qed
  show ?thesis
    by (simp add: parseInt_def Let_def S hd Z ne mathInt_numeral_value m)
qed

lemma dec_not_prefixed:
  assumes "\<forall>c\<in>set ds. dec_digit c \<noteq> None"
  shows "\<not> startsWith ds ''0x''"
proof
  assume "startsWith ds ''0x''"
  then have "CHR ''x'' \<in> set ds"
    by (cases ds; cases "tl ds") (auto simp: startsWith_def)
  with assms obtain d where "dec_digit (CHR ''x'') = Some d" by auto
  from dec_digit_char [OF this] show False by simp
qed

text \<open>Below \<open>2^53\<close> nothing is rounded, and the examples of rounding and overflow.\<close>

lemma toNumber_exact: "n < 2 ^ 53 \<Longrightarrow> toNumber 1 n = Finite (real n)"
proof -
  assume n: "n < 2 ^ 53"
  have "(2::nat) ^ 53 \<le> 2 ^ 1024" by (rule power_increasing) simp_all
  with n have "\<not> 2 ^ 1024 \<le> n" by linarith
  with n show ?thesis by (simp add: toNumber_def roundToDouble_def)
qed

lemma parseChainId_rounds:
  "parseChainId (String ''9007199254740993'') = Finite 9007199254740992 \<and>
   parseChainId (String ''-0'') = NegZero"
  by (simp add: parse_defs bits.simps Let_def)

text \<open>A power of two is a double; from \<open>2^1024\<close> on the result is an infinity.\<close>

lemma bits_power2: "bits (2 ^ k) = Suc k"
proof (induction k)
  case 0
  show ?case by (simp add: bits.simps [of "Suc 0"] bits.simps [of 0])
next
  case (Suc k)
  then show ?case by (simp add: bits.simps [of "2 * 2 ^ k"])
qed

lemma roundToDouble_power2: "53 \<le> k \<Longrightarrow> roundToDouble (2 ^ k) = 2 ^ k"
proof -
  assume k: "53 \<le> k"
  have "(2::nat) ^ 53 \<le> 2 ^ k" using k by (intro power_increasing) simp_all
  then have a: "\<not> (2::nat) ^ k < 2 ^ 53" by (simp only: not_less)
  have b: "(2::nat) ^ k mod 2 ^ (k - 52) = 0"
    using k by (simp add: mod_eq_0_iff_dvd le_imp_power_dvd)
  have c: "(2::nat) ^ k div 2 ^ (k - 52) * 2 ^ (k - 52) = 2 ^ k"
    using b by (simp add: dvd_div_mult_self mod_eq_0_iff_dvd)
  have d: "Suc k - 53 = k - 52" using k by simp
  show ?thesis
    unfolding roundToDouble_def bits_power2 Let_def d
    using a b c by (simp only: if_False) simp
qed

lemma toNumber_overflow:
  "toNumber 1 (2 ^ 1024) = PosInfinity \<and> toNumber (- 1) (2 ^ 1024) = NegInfinity"
proof -
  have r: "roundToDouble (2 ^ 1024) = 2 ^ 1024" by (rule roundToDouble_power2) simp
  show ?thesis unfolding toNumber_def r by simp
qed

text \<open>
  Claim C8. A number is returned as it is. A string that begins with \<open>0x\<close> goes to
  \<open>parseInt\<close> with radix 16, every other string with radix 10. On a numeral the result is
  the double of its value: \<open>0x\<close> followed by hexadecimal digits gives the double nearest to
  their base-16 value, a string of at most 20 decimal digits the double nearest to its
  base-10 value, and a value below \<open>2^53\<close> is given exactly. The three examples of the
  specification hold.
\<close>

theorem parseChainId_radix:
  "parseChainId (Number n) = n \<and>
   (startsWith s ''0x'' \<longrightarrow> parseChainId (String s) = parseInt s 16) \<and>
   (\<not> startsWith t ''0x'' \<longrightarrow> parseChainId (String t) = parseInt t 10) \<and>
   (hs \<noteq> [] \<and> (\<forall>c\<in>set hs. hex_digit c \<noteq> None) \<longrightarrow>
      parseChainId (String (''0x'' @ hs))
        = toNumber 1 (numeral_value 16 (map (the \<circ> hex_digit) hs))) \<and>
   (ds \<noteq> [] \<and> length ds \<le> 20 \<and> (\<forall>c\<in>set ds. dec_digit c \<noteq> None) \<longrightarrow>
      parseChainId (String ds) = toNumber 1 (numeral_value 10 (map (the \<circ> dec_digit) ds))) \<and>
   (k < 2 ^ 53 \<longrightarrow> toNumber 1 k = Finite (real k)) \<and>
   parseChainId (String ''0x1'') = Finite 1 \<and>
   parseChainId (String ''10'') = Finite 10 \<and>
   parseChainId (Number (Finite 5)) = Finite 5"
proof (intro conjI impI)
  show "parseChainId (Number n) = n" by (simp add: parseChainId_def)
  show "parseChainId (String s) = parseInt s 16" if "startsWith s ''0x''"
    using that by (simp add: parseChainId_def)
  show "parseChainId (String t) = parseInt t 10" if "\<not> startsWith t ''0x''"
    using that by (simp add: parseChainId_def)
  show "parseChainId (String (''0x'' @ hs))
      = toNumber 1 (numeral_value 16 (map (the \<circ> hex_digit) hs))"
    if "hs \<noteq> [] \<and> (\<forall>c\<in>set hs. hex_digit c \<noteq> None)"
    using that parseInt_hex [of hs] by (simp add: parseChainId_def startsWith_def)
  show "parseChainId (String ds) = toNumber 1 (numeral_value 10 (map (the \<circ> dec_digit) ds))"
    if "ds \<noteq> [] \<and> length ds \<le> 20 \<and> (\<forall>c\<in>set ds. dec_digit c \<noteq> None)"
    using that parseInt_dec [of ds] dec_not_prefixed [of ds] by (simp add: parseChainId_def)
  show "toNumber 1 k = Finite (real k)" if "k < 2 ^ 53"
    using that by (rule toNumber_exact)
  show "parseChainId (String ''0x1'') = Finite 1" by (simp add: parse_defs)
  show "parseChainId (String ''10'') = Finite 10" by (simp add: parse_defs)
  show "parseChainId (Number (Finite 5)) = Finite 5" by (simp add: parseChainId_def)
qed

text \<open>The theorem at \<open>0x1f\<close>, \<open>0x1F\<close> and \<open>137\<close>.\<close>

theorem parseChainId_radix_witness:
  "startsWith ''0x1f'' ''0x'' \<and> \<not> startsWith ''137'' ''0x'' \<and>
   hex_digit (CHR ''1'') = Some 1 \<and> hex_digit (CHR ''F'') = Some 15 \<and>
   dec_digit (CHR ''1'') = Some 1 \<and> dec_digit (CHR ''3'') = Some 3 \<and>
   dec_digit (CHR ''7'') = Some 7 \<and> length ''137'' \<le> 20 \<and> (137 :: nat) < 2 ^ 53 \<and>
   parseChainId (String ''0x1f'') = parseInt ''0x1f'' 16 \<and>
   parseChainId (String ''0x1F'') = Finite 31 \<and>
   parseChainId (String ''137'') = Finite 137 \<and>
   toNumber 1 137 = Finite 137"
  using parseChainId_radix [of "Finite 5" "''0x1f''" "''137''" "''1F''" "''137''" 137]
  by (simp add: hex_digit_def dec_digit_def parse_defs)


section \<open>The adapter: lemmas\<close>

lemmas adapter_defs = activate_def connectEagerly_def isomorphicInitialize_def
  requestAccountsAndChain_def setProvider_def thenP_def catchP_def promise_all_def logCall_def
  settled_def script_reports_def new_adapter_def PLAID_LINK_STABLE_URL_def

subsection \<open>Promise chains\<close>

lemma thenP_Fulfilled:
  "thenP r f = (Fulfilled v, w') \<Longrightarrow> \<exists>x w1. r = (Fulfilled x, w1) \<and> f x w1 = (Fulfilled v, w')"
  by (cases r) (auto simp: thenP_def split: promise.splits)

lemma catchP_cancel_Fulfilled:
  "catchP r (\<lambda>error w. (Rejected error, g w)) = (Fulfilled v, w') \<Longrightarrow> r = (Fulfilled v, w')"
  by (cases r) (auto simp: catchP_def split: promise.splits)

lemma catchP_cancel_Rejected:
  "catchP r (\<lambda>error w. (Rejected error, g w)) = (Rejected e, w') \<Longrightarrow>
     \<exists>w1. r = (Rejected e, w1) \<and> w' = g w1"
  by (cases r) (auto simp: catchP_def split: promise.splits)

lemma extends_refl: "extends w w"
  by (simp add: extends_def)

lemma extends_trans: "extends a b \<Longrightarrow> extends b c \<Longrightarrow> extends a c"
  by (auto simp: extends_def)

lemma extends_logCall: "extends w (logCall e w)"
  by (simp add: extends_def logCall_def)

lemma thenP_extends:
  assumes "extends w (snd r)" and "\<And>x w1. extends w1 (snd (f x w1))"
  shows "extends w (snd (thenP r f))"
proof (cases r)
  case (Pair a w1)
  show ?thesis
  proof (cases a)
    case (Fulfilled x)
    with Pair assms(1) assms(2) [of w1 x] show ?thesis
      by (auto simp: thenP_def intro: extends_trans)
  next
    case (Rejected e)
    with Pair assms(1) show ?thesis by (simp add: thenP_def)
  next
    case Pending
    with Pair assms(1) show ?thesis by (simp add: thenP_def)
  qed
qed

lemma isomorphicInitialize_extends: "extends w (snd (isomorphicInitialize env w))"
  by (auto simp: isomorphicInitialize_def Let_def thenP_def extends_def logCall_def
      split: option.splits promise.splits)

lemma isomorphicInitialize_trace:
  "\<exists>ini. set ini \<subseteq> {Web3} \<and> trace (snd (isomorphicInitialize env w)) = trace w @ ini"
  by (auto simp: isomorphicInitialize_def Let_def thenP_def logCall_def
      split: option.splits promise.splits)

lemma requestAccountsAndChain_extends: "extends w (snd (requestAccountsAndChain env p w))"
  by (auto simp: requestAccountsAndChain_def Let_def thenP_def extends_def logCall_def
      split: option.splits promise.splits)

text \<open>Both requests are issued, one after the other, whatever the provider answers.\<close>

lemma requestAccountsAndChain_issues_both:
  "\<exists>rest. trace (snd (requestAccountsAndChain env p w))
     = trace w @ Request p EthAccounts # Request p EthChainId # rest"
  by (auto simp: requestAccountsAndChain_def Let_def thenP_def logCall_def
      split: option.splits promise.splits)

lemma requestAccountsAndChain_frame:
  "provider (snd (requestAccountsAndChain env p w)) = provider w \<and>
   wired (snd (requestAccountsAndChain env p w)) = wired w"
  by (auto simp: requestAccountsAndChain_def Let_def thenP_def logCall_def split: promise.splits)

lemma setProvider_extends: "extends w (setProvider p w)"
  by (simp add: extends_def setProvider_def)

lemma activate_chain_extends:
  "extends w (snd (thenP
              (thenP (isomorphicInitialize env w)
                 (\<lambda>u w. case plaidWeb3 w of
                           None \<Rightarrow> (Rejected TypeError, w)
                         | Some sdk \<Rightarrow>
                             (onboarding_result env,
                              logCall Open (logCall (CreateEthereumOnboarding sdk) w))))
              (\<lambda>p w. requestAccountsAndChain env p (setProvider p w))))"
  apply (rule thenP_extends)
   apply (rule thenP_extends)
    apply (rule isomorphicInitialize_extends)
   apply (auto split: option.splits
      intro: extends_refl extends_trans [OF extends_logCall extends_logCall])[1]
  apply (rule extends_trans [OF setProvider_extends requestAccountsAndChain_extends])
  done

lemma connectEagerly_chain_extends:
  "extends w (snd (thenP
              (thenP
                 (thenP (isomorphicInitialize env w)
                    (\<lambda>u w. case plaidWeb3 w of
                              None \<Rightarrow> (Rejected TypeError, w)
                            | Some sdk \<Rightarrow>
                                (current_provider env,
                                 logCall (GetCurrentEthereumProvider sdk (options_chain w)) w)))
                 (\<lambda>found w.
                    case found of
                      None \<Rightarrow> (Rejected (Error ''No existing connection''), w)
                    | Some p \<Rightarrow>
                        (case plaidWeb3 w of
                           None \<Rightarrow> (Rejected TypeError, w)
                         | Some sdk \<Rightarrow>
                             thenP
                               (thenP (provider_active env p, logCall (IsProviderActive sdk p) w)
                                  (\<lambda>connected w.
                                     if \<not> connected
                                     then (Rejected (Error ''No existing connection''), w)
                                     else (Fulfilled (), w)))
                               (\<lambda>u w. (Fulfilled (), setProvider p w)))))
              (\<lambda>u w. case provider w of
                        None \<Rightarrow> (Rejected TypeError, w)
                      | Some p \<Rightarrow> requestAccountsAndChain env p w)))"
  apply (rule thenP_extends)
   apply (rule thenP_extends)
    apply (rule thenP_extends)
     apply (rule isomorphicInitialize_extends)
    apply (auto split: option.splits intro: extends_refl extends_logCall)[1]
   apply (auto split: option.splits
      intro!: extends_refl thenP_extends extends_logCall setProvider_extends)[1]
  apply (auto split: option.splits intro: extends_refl requestAccountsAndChain_extends)[1]
  done

subsection \<open>Requests for accounts and chain id\<close>

text \<open>
  Claim C1, evaluated on the code. The provider never answers \<open>eth_accounts\<close> (the wallet
  waits for the user). Both \<open>activate\<close> and \<open>connectEagerly\<close> have nevertheless issued
  \<open>eth_chainId\<close>: the two requests are in flight together, and the operation hangs.
\<close>

theorem chainId_requested_while_accounts_pending:
  "eth_accounts env_accounts_hang 1 = Pending \<and>
   fst (activate env_accounts_hang adapter0) = Pending \<and>
   trace (snd (activate env_accounts_hang adapter0)) =
     [StartActivation, Web3, CreateEthereumOnboarding 7, Open,
      Request 1 EthAccounts, Request 1 EthChainId] \<and>
   fst (connectEagerly env_accounts_hang adapter0) = Pending \<and>
   trace (snd (connectEagerly env_accounts_hang adapter0)) =
     [StartActivation, Web3, GetCurrentEthereumProvider 7 1, IsProviderActive 7 1,
      Request 1 EthAccounts, Request 1 EthChainId]"
  by (simp add: adapter_defs loader_defs page_defs sample_defs)

subsection \<open>Initialization\<close>

lemma isomorphicInitialize_sets_future:
  "eagerConnection (snd (isomorphicInitialize env w)) \<noteq> None"
  by (simp add: isomorphicInitialize_def Let_def split: option.splits)

lemma isomorphicInitialize_again:
  "eagerConnection w \<noteq> None \<Longrightarrow> isomorphicInitialize env w = (Fulfilled (), w)"
  by (auto simp: isomorphicInitialize_def)

text \<open>
  A later call of \<open>isomorphicInitialize\<close> leaves the adapter, the page and the record of
  calls as they are, and its promise is fulfilled at once.
\<close>

lemma initialization_not_retriggered:
  "isomorphicInitialize env' (snd (isomorphicInitialize env w))
     = (Fulfilled (), snd (isomorphicInitialize env w))"
  by (rule isomorphicInitialize_again [OF isomorphicInitialize_sets_future])

text \<open>
  Claim C2, evaluated on the code. A first \<open>activate\<close> leaves the initialization future
  pending (the script has not reported yet) or rejected (the script reported an error). The
  next call of \<open>isomorphicInitialize\<close> is fulfilled at once instead of following that
  future, so the next \<open>activate\<close> goes on without the SDK namespace and is rejected with a
  TypeError, where the first future is pending or was rejected with the script's error.
\<close>

theorem later_initialization_ignores_first_future:
  "fst (activate env_script_silent adapter0) = Pending \<and>
   eagerConnection (snd (activate env_script_silent adapter0)) = Some Pending \<and>
   fst (isomorphicInitialize env_ok (snd (activate env_script_silent adapter0))) = Fulfilled () \<and>
   fst (activate env_ok (snd (activate env_script_silent adapter0))) = Rejected TypeError \<and>
   eagerConnection adapter_failed = Some (Rejected (ScriptError 4)) \<and>
   fst (isomorphicInitialize env_ok adapter_failed) = Fulfilled () \<and>
   fst (activate env_ok adapter_failed) = Rejected TypeError"
  by (simp add: adapter_defs loader_defs page_defs sample_defs)

subsection \<open>Failure and cancellation\<close>

text \<open>Whatever made it fail, a rejected operation has cancelled its activation.\<close>

lemma rejection_ends_with_cancel:
  assumes "activate env w = (Rejected e, w') \<or> connectEagerly env w = (Rejected e, w')"
  shows "\<exists>mid. trace w' = trace w @ StartActivation # mid @ [CancelActivation]"
  using assms
proof
  assume "activate env w = (Rejected e, w')"
  then obtain w1 where w1: "extends (logCall StartActivation w) w1"
    and w': "w' = logCall CancelActivation w1"
    unfolding activate_def Let_def
    using activate_chain_extends [of "logCall StartActivation w" env]
    by (auto dest!: catchP_cancel_Rejected)
  then show ?thesis by (auto simp: extends_def logCall_def)
next
  assume "connectEagerly env w = (Rejected e, w')"
  then obtain w1 where w1: "extends (logCall StartActivation w) w1"
    and w': "w' = logCall CancelActivation w1"
    unfolding connectEagerly_def Let_def
    using connectEagerly_chain_extends [of "logCall StartActivation w" env]
    by (auto dest!: catchP_cancel_Rejected)
  then show ?thesis by (auto simp: extends_def logCall_def)
qed

lemma init_trace:
  assumes "isomorphicInitialize env (logCall StartActivation w) = (r0, w1)"
  shows "\<exists>ini. trace w1 = trace w @ StartActivation # ini"
  using isomorphicInitialize_trace [of env "logCall StartActivation w"] assms
  by (auto simp: logCall_def)

lemma cancelledI:
  assumes "\<exists>ini. trace w1 = trace w @ StartActivation # ini"
    and "extends w1 w2"
    and "r = (Rejected e, logCall CancelActivation w2)"
  shows "rejected_and_cancelled e w r"
  using assms by (auto simp: rejected_and_cancelled_def logCall_def extends_def)

lemma promise_all_rejects:
  "a = Rejected e1 \<or> b = Rejected e2 \<Longrightarrow> \<exists>e. promise_all s a b = Rejected e"
  by (auto simp: promise_all_def split: promise.splits)

text \<open>
  A connect on \<open>adapter0\<close> initializes when the script loads and the factory answers.
\<close>

lemma init_ok:
  assumes "script_event env = Some LoadEvent" and "web3_result env = Fulfilled 7"
  shows "isomorphicInitialize env (logCall StartActivation adapter0)
           = (Fulfilled (), snd (isomorphicInitialize env (logCall StartActivation adapter0)))"
    and "plaidWeb3 (snd (isomorphicInitialize env (logCall StartActivation adapter0))) = Some 7"
  by (simp_all add: adapter_defs loader_defs page_defs adapter0_def assms)

text \<open>
  Claim C5. Every stage at which \<open>activate\<close> or \<open>connectEagerly\<close> can fail makes the
  operation end rejected with that failure, and the calls it made begin with
  \<open>startActivation\<close> and end with the cancel function: initialization rejected; the SDK
  namespace missing after initialization; onboarding left through \<open>onExit\<close>; the lookup of
  the current provider rejected, or without a provider; the provider's activity check
  rejected, or negative; the pair of requests for accounts and chain id rejected; and an
  empty list of accounts. Conversely every rejection of either operation, whatever its
  cause, comes after the cancel call. Here \<open>r0\<close> and \<open>w1\<close> are the outcome of the
  initialization and the adapter after it.
\<close>

theorem failing_stage_cancels_activation:
  assumes init: "isomorphicInitialize env (logCall StartActivation w) = (r0, w1)"
  shows
   "(r0 = Rejected e \<longrightarrow>
       rejected_and_cancelled e w (activate env w) \<and>
       rejected_and_cancelled e w (connectEagerly env w)) \<and>
    (r0 = Fulfilled () \<and> plaidWeb3 w1 = None \<longrightarrow>
       rejected_and_cancelled TypeError w (activate env w) \<and>
       rejected_and_cancelled TypeError w (connectEagerly env w)) \<and>
    (r0 = Fulfilled () \<and> plaidWeb3 w1 = Some sdk \<longrightarrow>
       (onboarding_result env = Rejected e \<longrightarrow> rejected_and_cancelled e w (activate env w)) \<and>
       (onboarding_result env = Fulfilled p \<and>
        promise_all (chainId_first env) (eth_accounts env p) (eth_chainId env p) = Rejected e \<longrightarrow>
          rejected_and_cancelled e w (activate env w)) \<and>
       (onboarding_result env = Fulfilled p \<and>
        promise_all (chainId_first env) (eth_accounts env p) (eth_chainId env p)
          = Fulfilled ([], c) \<longrightarrow>
          rejected_and_cancelled (Error ''No accounts returned'') w (activate env w)) \<and>
       (current_provider env = Rejected e \<longrightarrow>
          rejected_and_cancelled e w (connectEagerly env w)) \<and>
       (current_provider env = Fulfilled None \<longrightarrow>
          rejected_and_cancelled (Error ''No existing connection'') w (connectEagerly env w)) \<and>
       (current_provider env = Fulfilled (Some p) \<and> provider_active env p = Rejected e \<longrightarrow>
          rejected_and_cancelled e w (connectEagerly env w)) \<and>
       (current_provider env = Fulfilled (Some p) \<and> provider_active env p = Fulfilled False \<longrightarrow>
          rejected_and_cancelled (Error ''No existing connection'') w (connectEagerly env w)) \<and>
       (current_provider env = Fulfilled (Some p) \<and> provider_active env p = Fulfilled True \<and>
        promise_all (chainId_first env) (eth_accounts env p) (eth_chainId env p) = Rejected e \<longrightarrow>
          rejected_and_cancelled e w (connectEagerly env w)) \<and>
       (current_provider env = Fulfilled (Some p) \<and> provider_active env p = Fulfilled True \<and>
        promise_all (chainId_first env) (eth_accounts env p) (eth_chainId env p)
          = Fulfilled ([], c) \<longrightarrow>
          rejected_and_cancelled (Error ''No accounts returned'') w (connectEagerly env w))) \<and>
    (activate env w = (Rejected e', w') \<or> connectEagerly env w = (Rejected e', w') \<longrightarrow>
       (\<exists>mid. trace w' = trace w @ StartActivation # mid @ [CancelActivation]))"
proof -
  note tr = init_trace [OF init]
  let ?wo = "logCall Open (logCall (CreateEthereumOnboarding sdk) w1)"
  let ?wq = "\<lambda>v. logCall (Request p EthChainId) (logCall (Request p EthAccounts) (setProvider p v))"
  let ?wl = "logCall (GetCurrentEthereumProvider sdk (options_chain w1)) w1"
  let ?wa = "logCall (IsProviderActive sdk p) ?wl"
  have ex: "extends w1 ?wo" "extends w1 (?wq ?wo)" "extends w1 ?wl" "extends w1 ?wa"
    "extends w1 (?wq ?wa)"
    by (simp_all add: extends_def logCall_def setProvider_def)
  have a1: "rejected_and_cancelled e w (activate env w)" if "r0 = Rejected e"
    by (rule cancelledI [OF tr extends_refl])
       (simp add: activate_def Let_def init that thenP_def catchP_def)
  have e1: "rejected_and_cancelled e w (connectEagerly env w)" if "r0 = Rejected e"
    by (rule cancelledI [OF tr extends_refl])
       (simp add: connectEagerly_def Let_def init that thenP_def catchP_def)
  have a2: "rejected_and_cancelled TypeError w (activate env w)"
    if "r0 = Fulfilled () \<and> plaidWeb3 w1 = None"
    by (rule cancelledI [OF tr extends_refl])
       (simp add: activate_def Let_def init that thenP_def catchP_def)
  have e2: "rejected_and_cancelled TypeError w (connectEagerly env w)"
    if "r0 = Fulfilled () \<and> plaidWeb3 w1 = None"
    by (rule cancelledI [OF tr extends_refl])
       (simp add: connectEagerly_def Let_def init that thenP_def catchP_def)
  have a3: "rejected_and_cancelled e w (activate env w)"
    if "r0 = Fulfilled () \<and> plaidWeb3 w1 = Some sdk" "onboarding_result env = Rejected e"
    by (rule cancelledI [OF tr ex(1)])
       (simp add: activate_def Let_def init that thenP_def catchP_def)
  have a4: "rejected_and_cancelled e w (activate env w)"
    if "r0 = Fulfilled () \<and> plaidWeb3 w1 = Some sdk"
      "onboarding_result env = Fulfilled p \<and>
        promise_all (chainId_first env) (eth_accounts env p) (eth_chainId env p) = Rejected e"
    by (rule cancelledI [OF tr ex(2)])
       (simp add: activate_def Let_def init that thenP_def catchP_def requestAccountsAndChain_def)
  have a5: "rejected_and_cancelled (Error ''No accounts returned'') w (activate env w)"
    if "r0 = Fulfilled () \<and> plaidWeb3 w1 = Some sdk"
      "onboarding_result env = Fulfilled p \<and>
        promise_all (chainId_first env) (eth_accounts env p) (eth_chainId env p)
          = Fulfilled ([], c)"
    by (rule cancelledI [OF tr ex(2)])
       (simp add: activate_def Let_def init that thenP_def catchP_def requestAccountsAndChain_def)
  have e3: "rejected_and_cancelled e w (connectEagerly env w)"
    if "r0 = Fulfilled () \<and> plaidWeb3 w1 = Some sdk" "current_provider env = Rejected e"
    by (rule cancelledI [OF tr ex(3)])
       (simp add: connectEagerly_def Let_def init that thenP_def catchP_def)
  have e4: "rejected_and_cancelled (Error ''No existing connection'') w (connectEagerly env w)"
    if "r0 = Fulfilled () \<and> plaidWeb3 w1 = Some sdk" "current_provider env = Fulfilled None"
    by (rule cancelledI [OF tr ex(3)])
       (simp add: connectEagerly_def Let_def init that thenP_def catchP_def)
  have sdk_l: "plaidWeb3 ?wl = plaidWeb3 w1" by (simp add: logCall_def)
  have e5: "rejected_and_cancelled e w (connectEagerly env w)"
    if "r0 = Fulfilled () \<and> plaidWeb3 w1 = Some sdk"
      "current_provider env = Fulfilled (Some p) \<and> provider_active env p = Rejected e"
    by (rule cancelledI [OF tr ex(4)])
       (simp add: connectEagerly_def Let_def init that thenP_def catchP_def sdk_l)
  have e6: "rejected_and_cancelled (Error ''No existing connection'') w (connectEagerly env w)"
    if "r0 = Fulfilled () \<and> plaidWeb3 w1 = Some sdk"
      "current_provider env = Fulfilled (Some p) \<and> provider_active env p = Fulfilled False"
    by (rule cancelledI [OF tr ex(4)])
       (simp add: connectEagerly_def Let_def init that thenP_def catchP_def sdk_l)
  have prov: "provider (setProvider p ?wa) = Some p" by (simp add: setProvider_def)
  have e7: "rejected_and_cancelled e w (connectEagerly env w)"
    if "r0 = Fulfilled () \<and> plaidWeb3 w1 = Some sdk"
      "current_provider env = Fulfilled (Some p) \<and> provider_active env p = Fulfilled True \<and>
        promise_all (chainId_first env) (eth_accounts env p) (eth_chainId env p) = Rejected e"
    by (rule cancelledI [OF tr ex(5)])
       (simp add: connectEagerly_def Let_def init that thenP_def catchP_def sdk_l prov
          requestAccountsAndChain_def)
  have e8: "rejected_and_cancelled (Error ''No accounts returned'') w (connectEagerly env w)"
    if "r0 = Fulfilled () \<and> plaidWeb3 w1 = Some sdk"
      "current_provider env = Fulfilled (Some p) \<and> provider_active env p = Fulfilled True \<and>
        promise_all (chainId_first env) (eth_accounts env p) (eth_chainId env p)
          = Fulfilled ([], c)"
    by (rule cancelledI [OF tr ex(5)])
       (simp add: connectEagerly_def Let_def init that thenP_def catchP_def sdk_l prov
          requestAccountsAndChain_def)
  have conv: "\<exists>mid. trace w' = trace w @ StartActivation # mid @ [CancelActivation]"
    if "activate env w = (Rejected e', w') \<or> connectEagerly env w = (Rejected e', w')"
    using that by (rule rejection_ends_with_cancel)
  from a1 e1 a2 e2 a3 a4 a5 e3 e4 e5 e6 e7 e8 conv show ?thesis by blast
qed

text \<open>Each stage at a sample: the theorem gives the rejection and the cancel call.\<close>

theorem failing_stage_cancels_activation_witness:
  "rejected_and_cancelled (ScriptError 4) adapter0 (activate env_script_error adapter0) \<and>
   rejected_and_cancelled (ScriptError 4) adapter0 (connectEagerly env_script_error adapter0) \<and>
   rejected_and_cancelled TypeError adapter_failed (activate env_ok adapter_failed) \<and>
   rejected_and_cancelled TypeError adapter_failed (connectEagerly env_ok adapter_failed) \<and>
   rejected_and_cancelled (Thrown 5) adapter0 (activate env_exit adapter0) \<and>
   rejected_and_cancelled (Thrown 3) adapter0 (activate env_no_accounts_chain_fails adapter0) \<and>
   rejected_and_cancelled (Error ''No accounts returned'') adapter0
     (activate env_no_accounts adapter0) \<and>
   rejected_and_cancelled (Thrown 6) adapter0 (connectEagerly env_lookup_fails adapter0) \<and>
   rejected_and_cancelled (Error ''No existing connection'') adapter0
     (connectEagerly env_no_session adapter0) \<and>
   rejected_and_cancelled (Thrown 8) adapter0 (connectEagerly env_active_fails adapter0) \<and>
   rejected_and_cancelled (Error ''No existing connection'') adapter0
     (connectEagerly env_inactive adapter0) \<and>
   rejected_and_cancelled (Thrown 3) adapter0
     (connectEagerly env_no_accounts_chain_fails adapter0) \<and>
   rejected_and_cancelled (Error ''No accounts returned'') adapter0
     (connectEagerly env_no_accounts adapter0) \<and>
   (\<exists>mid. trace (snd (activate env_exit adapter0))
      = trace adapter0 @ StartActivation # mid @ [CancelActivation])"
proof -
  let ?c = "String ''0x1''"
  have i1: "isomorphicInitialize env_script_error (logCall StartActivation adapter0)
      = (Rejected (ScriptError 4),
         snd (isomorphicInitialize env_script_error (logCall StartActivation adapter0)))"
    by (simp add: adapter_defs loader_defs page_defs sample_defs)
  have i2: "isomorphicInitialize env_ok (logCall StartActivation adapter_failed)
      = (Fulfilled (), logCall StartActivation adapter_failed)"
    by (simp add: adapter_defs loader_defs page_defs sample_defs)
  have n2: "plaidWeb3 (logCall StartActivation adapter_failed) = None"
    by (simp add: adapter_defs loader_defs page_defs sample_defs)
  have s1: "rejected_and_cancelled (ScriptError 4) adapter0 (activate env_script_error adapter0) \<and>
      rejected_and_cancelled (ScriptError 4) adapter0 (connectEagerly env_script_error adapter0)"
    using failing_stage_cancels_activation [OF i1, of "ScriptError 4"] by simp
  have s2: "rejected_and_cancelled TypeError adapter_failed (activate env_ok adapter_failed) \<and>
      rejected_and_cancelled TypeError adapter_failed (connectEagerly env_ok adapter_failed)"
    using failing_stage_cancels_activation [OF i2] n2 by simp
  have s3: "rejected_and_cancelled (Thrown 5) adapter0 (activate env_exit adapter0)"
  proof -
    have h: "onboarding_result env_exit = Rejected (Thrown 5)" by (simp add: sample_defs)
    have "script_event env_exit = Some LoadEvent" "web3_result env_exit = Fulfilled 7"
      by (simp_all add: sample_defs)
    note i = init_ok [OF this]
    from failing_stage_cancels_activation [OF i(1), of "Thrown 5" 7] i(2) h show ?thesis
      by simp
  qed
  have q: "promise_all (chainId_first env_no_accounts_chain_fails)
        (eth_accounts env_no_accounts_chain_fails 1) (eth_chainId env_no_accounts_chain_fails 1)
      = Rejected (Thrown 3)"
    "onboarding_result env_no_accounts_chain_fails = Fulfilled 1"
    "current_provider env_no_accounts_chain_fails = Fulfilled (Some 1)"
    "provider_active env_no_accounts_chain_fails 1 = Fulfilled True"
    by (simp_all add: sample_defs promise_all_def)
  have "script_event env_no_accounts_chain_fails = Some LoadEvent"
    "web3_result env_no_accounts_chain_fails = Fulfilled 7"
    by (simp_all add: sample_defs)
  note iq = init_ok [OF this]
  have s4: "rejected_and_cancelled (Thrown 3) adapter0
        (activate env_no_accounts_chain_fails adapter0) \<and>
      rejected_and_cancelled (Thrown 3) adapter0
        (connectEagerly env_no_accounts_chain_fails adapter0)"
    using failing_stage_cancels_activation [OF iq(1), of "Thrown 3" 7 1] iq(2) q by simp
  have e: "promise_all (chainId_first env_no_accounts)
        (eth_accounts env_no_accounts 1) (eth_chainId env_no_accounts 1)
      = Fulfilled ([], ?c)"
    "onboarding_result env_no_accounts = Fulfilled 1"
    "current_provider env_no_accounts = Fulfilled (Some 1)"
    "provider_active env_no_accounts 1 = Fulfilled True"
    by (simp_all add: sample_defs promise_all_def)
  have "script_event env_no_accounts = Some LoadEvent"
    "web3_result env_no_accounts = Fulfilled 7"
    by (simp_all add: sample_defs)
  note ie = init_ok [OF this]
  have s5: "rejected_and_cancelled (Error ''No accounts returned'') adapter0
        (activate env_no_accounts adapter0) \<and>
      rejected_and_cancelled (Error ''No accounts returned'') adapter0
        (connectEagerly env_no_accounts adapter0)"
    using failing_stage_cancels_activation [OF ie(1), of _ 7 1 ?c] ie(2) e by simp
  have s6: "rejected_and_cancelled (Thrown 6) adapter0 (connectEagerly env_lookup_fails adapter0)"
  proof -
    have h: "current_provider env_lookup_fails = Rejected (Thrown 6)" by (simp add: sample_defs)
    have "script_event env_lookup_fails = Some LoadEvent"
      "web3_result env_lookup_fails = Fulfilled 7"
      by (simp_all add: sample_defs)
    note i = init_ok [OF this]
    from failing_stage_cancels_activation [OF i(1), of "Thrown 6" 7] i(2) h show ?thesis
      by simp
  qed
  have s7: "rejected_and_cancelled (Error ''No existing connection'') adapter0
        (connectEagerly env_no_session adapter0)"
  proof -
    have h: "current_provider env_no_session = Fulfilled None" by (simp add: sample_defs)
    have "script_event env_no_session = Some LoadEvent"
      "web3_result env_no_session = Fulfilled 7"
      by (simp_all add: sample_defs)
    note i = init_ok [OF this]
    from failing_stage_cancels_activation [OF i(1), of _ 7] i(2) h show ?thesis
      by simp
  qed
  have s8: "rejected_and_cancelled (Thrown 8) adapter0 (connectEagerly env_active_fails adapter0)"
  proof -
    have h: "current_provider env_active_fails = Fulfilled (Some 1)"
      "provider_active env_active_fails 1 = Rejected (Thrown 8)"
      by (simp_all add: sample_defs)
    have "script_event env_active_fails = Some LoadEvent"
      "web3_result env_active_fails = Fulfilled 7"
      by (simp_all add: sample_defs)
    note i = init_ok [OF this]
    from failing_stage_cancels_activation [OF i(1), of "Thrown 8" 7 1] i(2) h show ?thesis
      by simp
  qed
  have s9: "rejected_and_cancelled (Error ''No existing connection'') adapter0
        (connectEagerly env_inactive adapter0)"
  proof -
    have h: "current_provider env_inactive = Fulfilled (Some 1)"
      "provider_active env_inactive 1 = Fulfilled False"
      by (simp_all add: sample_defs)
    have "script_event env_inactive = Some LoadEvent"
      "web3_result env_inactive = Fulfilled 7"
      by (simp_all add: sample_defs)
    note i = init_ok [OF this]
    from failing_stage_cancels_activation [OF i(1), of _ 7 1] i(2) h show ?thesis
      by simp
  qed
  have s10: "\<exists>mid. trace (snd (activate env_exit adapter0))
      = trace adapter0 @ StartActivation # mid @ [CancelActivation]"
  proof -
    have "script_event env_exit = Some LoadEvent" "web3_result env_exit = Fulfilled 7"
      by (simp_all add: sample_defs)
    note i = init_ok [OF this]
    from s3 have "activate env_exit adapter0 = (Rejected (Thrown 5), snd (activate env_exit adapter0))"
      by (simp add: rejected_and_cancelled_def prod_eq_iff)
    with failing_stage_cancels_activation
      [OF i(1), of _ _ _ _ "Thrown 5" "snd (activate env_exit adapter0)"]
    show ?thesis by blast
  qed
  from s1 s2 s3 s4 s5 s6 s7 s8 s9 s10 show ?thesis by blast
qed

subsection \<open>No accounts\<close>

text \<open>
  Claim C6 as stated fails: onboarding succeeds and \<open>eth_accounts\<close> resolves to the empty
  list, but \<open>eth_chainId\<close> is rejected. \<open>Promise.all\<close> is rejected with that reason, the
  check of the accounts never runs, and the operation fails with the provider's error.
\<close>

theorem no_accounts_counterexample:
  "onboarding_result env_no_accounts_chain_fails = Fulfilled 1 \<and>
   eth_accounts env_no_accounts_chain_fails 1 = Fulfilled [] \<and>
   fst (activate env_no_accounts_chain_fails adapter0) = Rejected (Thrown 3) \<and>
   fst (activate env_no_accounts_chain_fails adapter0) \<noteq> Rejected (Error ''No accounts returned'')"
  by (simp add: adapter_defs loader_defs page_defs sample_defs)

text \<open>
  Claim C6 as amended. Where initialization has given the SDK, onboarding succeeds with a
  provider, \<open>eth_accounts\<close> resolves to the empty list and \<open>eth_chainId\<close> resolves too,
  \<open>activate\<close> is rejected with the no-accounts error; after \<open>startActivation\<close> it has
  called the SDK factory at most, the onboarding, the two requests and the cancel function,
  and never \<open>update\<close>.
\<close>

theorem no_accounts_fails:
  assumes init: "isomorphicInitialize env (logCall StartActivation w) = (Fulfilled (), w1)"
    and sdk: "plaidWeb3 w1 = Some sdk"
    and onb: "onboarding_result env = Fulfilled p"
    and acc: "eth_accounts env p = Fulfilled []"
    and chn: "eth_chainId env p = Fulfilled c"
  shows "\<exists>w' ini. activate env w = (Rejected (Error ''No accounts returned''), w') \<and>
           set ini \<subseteq> {Web3} \<and>
           trace w' = trace w @ StartActivation # ini @
             [CreateEthereumOnboarding sdk, Open, Request p EthAccounts, Request p EthChainId,
              CancelActivation]"
proof -
  obtain ini where ini: "set ini \<subseteq> {Web3}" "trace w1 = trace (logCall StartActivation w) @ ini"
    using isomorphicInitialize_trace [of env "logCall StartActivation w"] init by auto
  have "activate env w = (Rejected (Error ''No accounts returned''),
          logCall CancelActivation (logCall (Request p EthChainId) (logCall (Request p EthAccounts)
            (setProvider p (logCall Open (logCall (CreateEthereumOnboarding sdk) w1))))))"
    by (simp add: activate_def Let_def init sdk onb acc chn thenP_def catchP_def
        requestAccountsAndChain_def promise_all_def)
  moreover have "trace (logCall CancelActivation (logCall (Request p EthChainId)
            (logCall (Request p EthAccounts)
            (setProvider p (logCall Open (logCall (CreateEthereumOnboarding sdk) w1))))))
      = trace w @ StartActivation # ini @
             [CreateEthereumOnboarding sdk, Open, Request p EthAccounts, Request p EthChainId,
              CancelActivation]"
    using ini(2) by (simp add: logCall_def setProvider_def)
  ultimately show ?thesis using ini(1) by blast
qed

theorem no_accounts_fails_witness:
  "isomorphicInitialize env_no_accounts (logCall StartActivation adapter0)
      = (Fulfilled (), snd (isomorphicInitialize env_no_accounts (logCall StartActivation adapter0))) \<and>
   plaidWeb3 (snd (isomorphicInitialize env_no_accounts (logCall StartActivation adapter0))) = Some 7 \<and>
   onboarding_result env_no_accounts = Fulfilled 1 \<and>
   eth_accounts env_no_accounts 1 = Fulfilled [] \<and>
   eth_chainId env_no_accounts 1 = Fulfilled (String ''0x1'') \<and>
   (\<exists>w' ini. activate env_no_accounts adapter0 = (Rejected (Error ''No accounts returned''), w') \<and>
      set ini \<subseteq> {Web3} \<and>
      trace w' = trace adapter0 @ StartActivation # ini @
        [CreateEthereumOnboarding 7, Open, Request 1 EthAccounts, Request 1 EthChainId,
         CancelActivation])"
proof -
  have a: "isomorphicInitialize env_no_accounts (logCall StartActivation adapter0)
      = (Fulfilled (), snd (isomorphicInitialize env_no_accounts (logCall StartActivation adapter0)))"
    by (simp add: adapter_defs loader_defs page_defs sample_defs)
  have b: "plaidWeb3 (snd (isomorphicInitialize env_no_accounts (logCall StartActivation adapter0)))
      = Some 7"
    by (simp add: adapter_defs loader_defs page_defs sample_defs)
  have c: "onboarding_result env_no_accounts = Fulfilled 1" by (simp add: sample_defs)
  have d: "eth_accounts env_no_accounts 1 = Fulfilled []" by (simp add: sample_defs)
  have e: "eth_chainId env_no_accounts 1 = Fulfilled (String ''0x1'')" by (simp add: sample_defs)
  from no_accounts_fails [OF a b c d e] a b c d e show ?thesis by blast
qed

subsection \<open>A connected adapter\<close>

lemma activate_ok: "fst (activate env_ok adapter0) = Fulfilled ()"
  by (simp add: adapter_defs loader_defs page_defs sample_defs parse_defs)

lemma activate_ok_provider: "provider (snd (activate env_ok adapter0)) = Some 1"
  by (simp add: adapter_defs loader_defs page_defs sample_defs parse_defs)

text \<open>The scenario of the specification: \<open>update\<close> is called with chain 1 and the account.\<close>

lemma activate_ok_trace:
  "trace (snd (activate env_ok adapter0)) =
     [StartActivation, Web3, CreateEthereumOnboarding 7, Open, Request 1 EthAccounts,
      Request 1 EthChainId, Update (Some (Finite 1)) (Some [''0xabc''])]"
  by (simp add: adapter_defs loader_defs page_defs sample_defs parse_defs)

subsection \<open>watchAsset\<close>

text \<open>
  The two cases of \<open>watchAsset\<close>. While the provider field is unset it throws the
  no-provider error and does nothing else. While it is set it issues one
  \<open>wallet_watchAsset\<close> request of type \<open>ERC20\<close> with the given metadata and returns a
  promise: rejected with the rejection error when the answer is falsy, fulfilled with true
  when it is truthy, and following the request when that is rejected or pending.
\<close>

lemma watchAsset_cases:
  "(provider w = None \<longrightarrow> watchAsset env opts w = (Throws (Error ''No provider''), w)) \<and>
   (provider w = Some p \<longrightarrow>
      fst (watchAsset env opts w) = Returns (watched (watchAsset_result env p)) \<and>
      trace (snd (watchAsset env opts w))
        = trace w @ [Request p (WalletWatchAsset ''ERC20'' opts)])"
  by (auto simp: watchAsset_def watched_def thenP_def logCall_def Let_def split: promise.splits)

text \<open>
  Claim C7, evaluated on the code. On a new adapter, before any connect, \<open>watchAsset\<close>
  throws the no-provider error to its caller: it returns no promise, so the error does not
  arrive as a rejection, and the adapter is left as it was.
\<close>

theorem watchAsset_throws_synchronously:
  "provider adapter0 = None \<and>
   watchAsset env_ok token adapter0 = (Throws (Error ''No provider''), adapter0) \<and>
   fst (watchAsset env_ok token adapter0) \<noteq> Returns (Rejected (Error ''No provider''))"
  by (simp add: watchAsset_def sample_defs new_adapter_def)

subsection \<open>Provider events\<close>

lemma run_handler_frame:
  "provider (run_handler h ev w) = provider w \<and> plaidWeb3 (run_handler h ev w) = plaidWeb3 w"
  by (cases "(h, ev, w)" rule: run_handler.cases) (simp_all add: logCall_def Let_def)

lemma foldl_handlers_frame:
  "provider (foldl (\<lambda>q h. run_handler h ev q) w hs) = provider w \<and>
   plaidWeb3 (foldl (\<lambda>q h. run_handler h ev q) w hs) = plaidWeb3 w"
  by (induction hs arbitrary: w) (simp_all add: run_handler_frame)

lemma emit_frame: "provider (emit p ev w) = provider w \<and> plaidWeb3 (emit p ev w) = plaidWeb3 w"
  by (simp add: emit_def foldl_handlers_frame)

lemma foldl_accountsChanged:
  "trace (foldl (\<lambda>q h. run_handler h (AccountsChanged accs) q) w hs)
     = trace w @ replicate (length (filter (\<lambda>h. h = OnAccountsChanged) hs))
         (if accs = [] then ResetState else Update None (Some accs))"
proof (induction hs arbitrary: w)
  case Nil
  show ?case by simp
next
  case (Cons h hs)
  show ?case by (cases h) (simp_all add: Cons.IH logCall_def replicate_append_same)
qed

lemma nonempty_length: "xs \<noteq> [] \<Longrightarrow> 0 < length xs"
  by simp

lemma subscribed_setProvider: "subscribed (setProvider p w)"
  by (simp add: subscribed_def setProvider_def)

lemma subscribed_request:
  "subscribed w \<Longrightarrow> subscribed (snd (requestAccountsAndChain env p w))"
  by (simp add: subscribed_def requestAccountsAndChain_frame)

lemma activate_subscribed:
  assumes "activate env w = (Fulfilled u, w')"
  shows "subscribed w'"
proof -
  from assms obtain p w1 where
    "requestAccountsAndChain env p (setProvider p w1) = (Fulfilled u, w')"
    unfolding activate_def Let_def
    by (auto dest!: catchP_cancel_Fulfilled thenP_Fulfilled)
  then show ?thesis
    using subscribed_request [OF subscribed_setProvider, of env p p w1] by simp
qed

lemma connectEagerly_subscribed:
  assumes "connectEagerly env w = (Fulfilled u, w')"
  shows "subscribed w'"
proof -
  from assms obtain x w3 where
    b: "(case provider w3 of None \<Rightarrow> (Rejected TypeError, w3)
           | Some p \<Rightarrow> requestAccountsAndChain env p w3) = (Fulfilled u, w')"
    and "\<exists>found w2. (case found of
                      None \<Rightarrow> (Rejected (Error ''No existing connection''), w2)
                    | Some p \<Rightarrow>
                        (case plaidWeb3 w2 of
                           None \<Rightarrow> (Rejected TypeError, w2)
                         | Some sdk \<Rightarrow>
                             thenP
                               (thenP (provider_active env p, logCall (IsProviderActive sdk p) w2)
                                  (\<lambda>connected w.
                                     if \<not> connected
                                     then (Rejected (Error ''No existing connection''), w)
                                     else (Fulfilled (), w)))
                               (\<lambda>u w. (Fulfilled (), setProvider p w)))) = (Fulfilled x, w3)"
    unfolding connectEagerly_def Let_def
    apply -
    apply (drule catchP_cancel_Fulfilled)
    apply (drule thenP_Fulfilled)
    apply (elim exE conjE)
    apply (drule thenP_Fulfilled)
    apply (elim exE conjE)
    apply blast
    done
  then obtain found w2 p sdk where "thenP
                               (thenP (provider_active env p, logCall (IsProviderActive sdk p) w2)
                                  (\<lambda>connected w.
                                     if \<not> connected
                                     then (Rejected (Error ''No existing connection''), w)
                                     else (Fulfilled (), w)))
                               (\<lambda>u w. (Fulfilled (), setProvider p w)) = (Fulfilled x, w3)"
    by (auto split: option.splits)
  then have s: "subscribed w3"
    by (auto dest!: thenP_Fulfilled [where f = "\<lambda>u w. (Fulfilled (), setProvider p w)"]
        simp: subscribed_setProvider)
  then obtain q where q: "provider w3 = Some q" by (auto simp: subscribed_def)
  with b have "requestAccountsAndChain env q w3 = (Fulfilled u, w')" by simp
  with subscribed_request [OF s, of env q] show ?thesis by simp
qed

text \<open>
  Claim C9. After \<open>activate\<close> or \<open>connectEagerly\<close> has succeeded, the adapter holds a
  provider, and when that provider emits \<open>accountsChanged\<close> the adapter calls
  \<open>resetState\<close> if the list is empty and \<open>update\<close> with the accounts otherwise; it calls
  nothing else, and it calls once for every time the provider was wired (at least once).
\<close>

theorem accountsChanged_handled:
  assumes "activate env w = (Fulfilled u, w') \<or> connectEagerly env w = (Fulfilled u, w')"
  shows "\<exists>p k. provider w' = Some p \<and> 0 < k \<and>
           trace (emit p (AccountsChanged accs) w')
             = trace w' @ replicate k (if accs = [] then ResetState else Update None (Some accs))"
proof -
  from assms have "subscribed w'"
    by (auto dest: activate_subscribed connectEagerly_subscribed)
  then obtain p where p: "provider w' = Some p"
    and sub: "(p, ''accountsChanged'', OnAccountsChanged) \<in> set (wired w')"
    by (auto simp: subscribed_def)
  let ?hs = "map (\<lambda>x. snd (snd x))
          (filter (\<lambda>x. fst x = p \<and> fst (snd x) = event_name (AccountsChanged accs)) (wired w'))"
  from sub have "OnAccountsChanged \<in> set ?hs" by force
  then have "filter (\<lambda>h. h = OnAccountsChanged) ?hs \<noteq> []"
    unfolding filter_empty_conv by blast
  then have "0 < length (filter (\<lambda>h. h = OnAccountsChanged) ?hs)"
    by (rule nonempty_length)
  moreover have "trace (emit p (AccountsChanged accs) w')
      = trace w' @ replicate (length (filter (\<lambda>h. h = OnAccountsChanged) ?hs))
          (if accs = [] then ResetState else Update None (Some accs))"
    unfolding emit_def by (rule foldl_accountsChanged)
  ultimately show ?thesis using p by blast
qed

theorem accountsChanged_handled_witness:
  "fst (activate env_ok adapter0) = Fulfilled () \<and>
   (\<exists>p k. provider (snd (activate env_ok adapter0)) = Some p \<and> 0 < k \<and>
      trace (emit p (AccountsChanged []) (snd (activate env_ok adapter0)))
        = trace (snd (activate env_ok adapter0)) @ replicate k ResetState)"
proof -
  have "activate env_ok adapter0 = (Fulfilled (), snd (activate env_ok adapter0))
      \<or> connectEagerly env_ok adapter0 = (Fulfilled (), snd (activate env_ok adapter0))"
    using activate_ok by (metis prod.collapse)
  from accountsChanged_handled [OF this, of "[]"] activate_ok show ?thesis
    by simp
qed

subsection \<open>deactivate\<close>

text \<open>
  Claim C10. \<open>deactivate\<close> leaves the provider field and the SDK field as they are, also
  when the provider emits \<open>disconnect\<close> in answer; so where a provider was set, a
  \<open>watchAsset\<close> that follows does not throw the no-provider error.
\<close>

theorem deactivate_keeps_provider:
  "provider (snd (deactivate env w)) = provider w \<and>
   plaidWeb3 (snd (deactivate env w)) = plaidWeb3 w \<and>
   (provider w = Some p \<longrightarrow>
      fst (watchAsset env' opts (snd (deactivate env w))) \<noteq> Throws (Error ''No provider''))"
proof -
  have a: "provider (snd (deactivate env w)) = provider w"
    by (simp add: deactivate_def Let_def emit_frame logCall_def split: option.splits)
  have b: "plaidWeb3 (snd (deactivate env w)) = plaidWeb3 w"
    by (simp add: deactivate_def Let_def emit_frame logCall_def split: option.splits)
  have "provider w = Some p \<Longrightarrow>
      fst (watchAsset env' opts (snd (deactivate env w))) \<noteq> Throws (Error ''No provider'')"
    using a by (simp add: watchAsset_def Let_def)
  with a b show ?thesis by simp
qed

theorem deactivate_keeps_provider_witness:
  "provider (snd (activate env_ok adapter0)) = Some 1 \<and>
   fst (deactivate env_ok (snd (activate env_ok adapter0))) = Fulfilled () \<and>
   provider (snd (deactivate env_ok (snd (activate env_ok adapter0)))) = Some 1 \<and>
   fst (watchAsset env_ok token (snd (deactivate env_ok (snd (activate env_ok adapter0)))))
     \<noteq> Throws (Error ''No provider'')"
proof -
  have "fst (deactivate env_ok (snd (activate env_ok adapter0))) = Fulfilled ()"
    by (simp add: deactivate_def adapter_defs loader_defs page_defs sample_defs parse_defs)
  with deactivate_keeps_provider [of env_ok "snd (activate env_ok adapter0)" 1 env_ok token]
    activate_ok_provider
  show ?thesis by simp
qed

end
